theory Spec2Isabelle
  imports Main
begin

section \<open>JavaScript strings as used by \<^verbatim>\<open>src/app/page.tsx\<close>\<close>

text \<open>
  The panel only ever tests strings for truthiness, splits one on a single space, replaces
  the first occurrence of a fixed pattern and asks whether a message includes a fixed
  text. All delimiters are ASCII, so a string is a \<^typ>\<open>char list\<close>.
\<close>

definition truthy :: "string \<Rightarrow> bool" where
  \<comment> \<open>\<^verbatim>\<open>!!s\<close> for a string: every string but the empty one is truthy.\<close>
  "truthy s = (s \<noteq> [])"

fun split :: "string \<Rightarrow> char \<Rightarrow> string list" where
  \<comment> \<open>\<^verbatim>\<open>s.split(sep)\<close> for a one-character separator: the empty string gives one empty
      token, two separators in a row give an empty token between them.\<close>
  "split [] sep = [[]]"
| "split (c # cs) sep =
     (if c = sep then [] # split cs sep
      else (case split cs sep of [] \<Rightarrow> [[c]] | t # ts \<Rightarrow> (c # t) # ts))"

fun indexOf :: "string \<Rightarrow> string \<Rightarrow> (string \<times> string) option" where
  \<comment> \<open>The first occurrence of \<open>pat\<close> in the string, as the text in front of it and the
      text behind it; \<open>None\<close> when there is none (\<^verbatim>\<open>indexOf\<close> returning -1).\<close>
  "indexOf [] pat = (if pat = [] then Some ([], []) else None)"
| "indexOf (c # cs) pat =
     (if take (length pat) (c # cs) = pat then Some ([], drop (length pat) (c # cs))
      else (case indexOf cs pat of
              None \<Rightarrow> None
            | Some (pre, post) \<Rightarrow> Some (c # pre, post)))"

fun getSubstitution :: "string \<Rightarrow> string \<Rightarrow> string \<Rightarrow> string \<Rightarrow> string" where
  \<comment> \<open>ECMAScript \<^verbatim>\<open>GetSubstitution\<close> for a string pattern (no capture groups): in the
      replacement text a dollar sign followed by a dollar sign stands for one dollar sign,
      followed by an ampersand for the matched text, followed by a backquote for the text
      in front of the match, followed by an apostrophe for the text behind it. Any other dollar
      sign, and every other character, stands for itself.\<close>
  "getSubstitution matched pre post [] = []"
| "getSubstitution matched pre post [c] = [c]"
| "getSubstitution matched pre post (c # d # t) =
     (if c = CHR ''$'' \<and> d = CHR ''$'' then CHR ''$'' # getSubstitution matched pre post t
      else if c = CHR ''$'' \<and> d = CHR 0x60 then pre @ getSubstitution matched pre post t
      else if c = CHR ''$'' \<and> d = CHR ''&'' then matched @ getSubstitution matched pre post t
      else if c = CHR ''$'' \<and> d = CHR 0x27 then post @ getSubstitution matched pre post t
      else c # getSubstitution matched pre post (d # t))"

definition replace :: "string \<Rightarrow> string \<Rightarrow> string \<Rightarrow> string" where
  \<comment> \<open>\<^verbatim>\<open>s.replace(pat, repl)\<close> with a string pattern: only the first occurrence is
      replaced, by the expansion of \<open>repl\<close>.\<close>
  "replace s pat repl =
     (case indexOf s pat of
        None \<Rightarrow> s
      | Some (pre, post) \<Rightarrow> pre @ getSubstitution pat pre post repl @ post)"

definition includes_str :: "string \<Rightarrow> string \<Rightarrow> bool" where
  \<comment> \<open>\<^verbatim>\<open>s.includes(pat)\<close>.\<close>
  "includes_str s pat = (indexOf s pat \<noteq> None)"

section \<open>Data held by the panel\<close>

text \<open>
  \<^verbatim>\<open>interface AdminSettings\<close> and the \<^verbatim>\<open>credentials\<close> state: the credentials are the four
  database defaults plus the selected database, so the record extends the defaults.
\<close>

record db_settings =
  host :: string
  port :: string
  user :: string
  password :: string

record credentials = db_settings +
  database :: string

record executable_settings =
  path :: string
  defaultParams :: string

record admin_settings =
  database_defaults :: db_settings  \<comment> \<open>\<^verbatim>\<open>AdminSettings.database\<close>\<close>
  executable :: executable_settings

text \<open>
  \<^verbatim>\<open>interface QueryResult\<close>. The field \<^verbatim>\<open>data\<close> is declared \<^verbatim>\<open>any[]\<close> but the panel
  also stores \<^verbatim>\<open>null\<close>, an affected-row count and the output of the executed file in it,
  and tells them apart with \<^verbatim>\<open>Array.isArray\<close>; an absent field is \<open>None\<close>.
\<close>

datatype scalar = SNull | SBool bool | SNum int | SStr string

type_synonym row = "(string \<times> scalar) list"

datatype payload = PNull | PRows "row list" | PCount int | PText string

record query_result =
  success :: bool
  data :: "payload option"
  error :: "string option"
  message :: "string option"

definition failure :: "string \<Rightarrow> query_result" where
  \<comment> \<open>The object literal \<^verbatim>\<open>{ success: false, error: msg }\<close>.\<close>
  "failure msg = \<lparr>success = False, data = None, error = Some msg, message = None\<rparr>"

text \<open>The component state, one field for each \<^verbatim>\<open>useState\<close> of \<^verbatim>\<open>SQLPanel\<close>.
  An \<^verbatim>\<open>AbortController\<close> is an object shared between the state and the request it was
  handed to, so the state holds a reference to it (a number).\<close>

record panel =
  credentials :: credentials
  query :: string
  loading :: bool
  result :: "query_result option"
  databases :: "string list"
  isConnected :: bool
  abortController :: "nat option"
  csvFilename :: string
  executablePath :: string
  executableParams :: string
  savedCsvPath :: string
  adminSettings :: admin_settings

definition initial_panel :: panel where
  "initial_panel =
     \<lparr>credentials = \<lparr>host = [], port = [], user = [], password = [], database = []\<rparr>,
      query = [], loading = False, result = None, databases = [], isConnected = False,
      abortController = None, csvFilename = [], executablePath = [], executableParams = [],
      savedCsvPath = [],
      adminSettings = \<lparr>database_defaults = \<lparr>host = [], port = [], user = [], password = []\<rparr>,
                       executable = \<lparr>path = [], defaultParams = []\<rparr>\<rparr>\<rparr>"

subsection \<open>What the collaborators answer\<close>

text \<open>
  A request either resolves to the JSON object of the response or throws. The handlers
  look at a thrown value only through \<^verbatim>\<open>instanceof Error\<close>, \<^verbatim>\<open>name\<close> and \<^verbatim>\<open>message\<close>.
\<close>

datatype thrown = JsError string string  \<comment> \<open>an \<^verbatim>\<open>Error\<close> object: name, message\<close>
  | NonError

datatype 'a outcome = Resolved 'a | Threw thrown

record settings_response =
  settings_success :: bool
  settings :: admin_settings

record databases_response =
  list_success :: bool
  list_databases :: "string list"
  list_error :: "string option"

record save_response =
  save_success :: bool
  filePath :: string
  save_error :: "string option"

record file_response =
  file_success :: bool
  file_output :: "string option"  \<comment> \<open>the field \<^verbatim>\<open>output\<close>\<close>
  file_error :: "string option"

definition abortError :: thrown where
  \<comment> \<open>What \<^verbatim>\<open>fetch\<close> rejects with once the signal it was given has been aborted.\<close>
  "abortError = JsError ''AbortError'' ''The operation was aborted.''"

subsection \<open>Requests in flight\<close>

text \<open>
  An \<^verbatim>\<open>async\<close> handler runs up to its \<^verbatim>\<open>await fetch\<close>, and its rest runs when the
  request settles. The rest still sees the constants of the render in which the handler
  was created, so a suspended handler is the request it sent together with the values its
  rest reads from that closure.
\<close>

datatype pending =
    AwaitSettings credentials
      \<comment> \<open>\<^verbatim>\<open>loadSavedSettings\<close>; the \<^verbatim>\<open>credentials\<close> of the render that ran the effect\<close>
  | AwaitTestConnection credentials "query_result option"
      \<comment> \<open>the Test Connection handler: request body; the \<^verbatim>\<open>result\<close> its \<^verbatim>\<open>fetchDatabases\<close> sees\<close>
  | AwaitListDatabases credentials "query_result option"
      \<comment> \<open>\<^verbatim>\<open>fetchDatabases\<close>, awaited by the Test Connection handler\<close>
  | AwaitExecuteSql credentials string nat
      \<comment> \<open>\<^verbatim>\<open>handleSubmit\<close>: request body (credentials, query) and the controller whose signal it got\<close>
  | AwaitSaveCsv "payload option" string
      \<comment> \<open>the Save CSV handler: \<^verbatim>\<open>result.data\<close> of its render and the filename\<close>
  | AwaitExecuteFile string "string list"
      \<comment> \<open>the Execute handler: \<^verbatim>\<open>filePath\<close> and \<^verbatim>\<open>parameters\<close> of the request\<close>

record world =
  ui :: panel
  inflight :: "pending list"
  aborted :: "nat set"   \<comment> \<open>the controllers whose \<^verbatim>\<open>abort()\<close> has been called\<close>
  controllers :: nat     \<comment> \<open>how many controllers have been created\<close>

definition remove_nth :: "nat \<Rightarrow> 'a list \<Rightarrow> 'a list" where
  "remove_nth i xs = take i xs @ drop (Suc i) xs"

definition set_ui :: "(panel \<Rightarrow> panel) \<Rightarrow> world \<Rightarrow> world" where
  \<comment> \<open>a run of state setters\<close>
  "set_ui f w = w\<lparr>ui := f (ui w)\<rparr>"

definition dispatch :: "pending \<Rightarrow> world \<Rightarrow> world" where
  \<comment> \<open>\<^verbatim>\<open>await fetch(...)\<close>: the request leaves and the handler is suspended\<close>
  "dispatch p w = w\<lparr>inflight := inflight w @ [p]\<rparr>"

section \<open>The handlers\<close>

subsection \<open>\<^verbatim>\<open>loadSavedSettings\<close> (the effect run on mount)\<close>

definition spread_defaults :: "credentials \<Rightarrow> db_settings \<Rightarrow> credentials" where
  \<comment> \<open>\<^verbatim>\<open>{ ...credentials, ...data.settings.database }\<close>\<close>
  "spread_defaults c d = c\<lparr>host := host d, port := port d, user := user d, password := password d\<rparr>"

definition loadSavedSettings_settled ::
  "credentials \<Rightarrow> settings_response outcome \<Rightarrow> panel \<Rightarrow> panel" where
  \<comment> \<open>\<open>closure\<close> is the constant \<^verbatim>\<open>credentials\<close> that the effect's function closed over\<close>
  "loadSavedSettings_settled closure out s =
     (case out of
        Threw e \<Rightarrow> s
      | Resolved d \<Rightarrow>
          if settings_success d then
            (let s1 = s\<lparr>adminSettings := settings d\<rparr> in
             if \<not> truthy (host closure) \<and> \<not> truthy (port closure) \<and>
                \<not> truthy (user closure) \<and> \<not> truthy (password closure)
             then s1\<lparr>credentials := spread_defaults closure (database_defaults (settings d))\<rparr>
             else s1)
          else s)"

subsection \<open>\<^verbatim>\<open>fetchDatabases\<close>\<close>

definition fetch_databases_failed :: string where
  "fetch_databases_failed =
     ''Failed to fetch databases. Please check your connection and try again.''"

definition or_else :: "string option \<Rightarrow> string \<Rightarrow> string" where
  \<comment> \<open>\<^verbatim>\<open>e || d\<close> for an optional string \<open>e\<close>\<close>
  "or_else e d = (case e of None \<Rightarrow> d | Some m \<Rightarrow> if truthy m then m else d)"

definition fetchDatabases_begin :: "credentials \<Rightarrow> query_result option \<Rightarrow> world \<Rightarrow> world" where
  "fetchDatabases_begin cr res w =
     dispatch (AwaitListDatabases cr res) (set_ui (\<lambda>s. s\<lparr>loading := True\<rparr>) w)"

definition fetched_error_shown :: "query_result option \<Rightarrow> bool" where
  \<comment> \<open>\<^verbatim>\<open>result?.error?.includes('Failed to fetch databases')\<close>\<close>
  "fetched_error_shown res =
     (case res of
        None \<Rightarrow> False
      | Some r \<Rightarrow> (case error r of
                    None \<Rightarrow> False
                  | Some m \<Rightarrow> includes_str m ''Failed to fetch databases''))"

definition fetchDatabases_settled ::
  "query_result option \<Rightarrow> databases_response outcome \<Rightarrow> panel \<Rightarrow> panel" where
  \<comment> \<open>\<open>res\<close> is the constant \<^verbatim>\<open>result\<close> that \<^verbatim>\<open>fetchDatabases\<close> closed over\<close>
  "fetchDatabases_settled res out s =
     (let s1 =
        (case out of
           Resolved d \<Rightarrow>
             if list_success d then
               (let s2 = s\<lparr>databases := list_databases d\<rparr> in
                if fetched_error_shown res then s2\<lparr>result := None\<rparr> else s2)
             else
               s\<lparr>result := Some (failure (or_else (list_error d) fetch_databases_failed)),
                 isConnected := False\<rparr>
         | Threw e \<Rightarrow>
             s\<lparr>result := Some (failure fetch_databases_failed), isConnected := False\<rparr>)
      in s1\<lparr>loading := False\<rparr>)"

subsection \<open>The Test Connection button\<close>

definition testConnection_begin :: "world \<Rightarrow> world" where
  "testConnection_begin w =
     dispatch (AwaitTestConnection (credentials (ui w)) (result (ui w)))
       (set_ui (\<lambda>s. s\<lparr>loading := True, result := None, isConnected := False\<rparr>) w)"

definition testConnection_settled ::
  "credentials \<Rightarrow> query_result option \<Rightarrow> query_result outcome \<Rightarrow> world \<Rightarrow> world" where
  "testConnection_settled cr res out w =
     (case out of
        Resolved d \<Rightarrow>
          (let w1 = set_ui (\<lambda>s. s\<lparr>result := Some d\<rparr>) w in
           if success d
           then fetchDatabases_begin cr res (set_ui (\<lambda>s. s\<lparr>isConnected := True\<rparr>) w1)
           else set_ui (\<lambda>s. s\<lparr>isConnected := False, loading := False\<rparr>) w1)
      | Threw e \<Rightarrow>
          set_ui (\<lambda>s. s\<lparr>result := Some (failure ''Failed to test connection. Please try again.''),
                       loading := False\<rparr>) w)"

definition testConnection_listed ::
  "query_result option \<Rightarrow> databases_response outcome \<Rightarrow> panel \<Rightarrow> panel" where
  \<comment> \<open>\<^verbatim>\<open>await fetchDatabases()\<close> returns, then the handler's own \<^verbatim>\<open>finally\<close>\<close>
  "testConnection_listed res out s = (fetchDatabases_settled res out s)\<lparr>loading := False\<rparr>"

subsection \<open>\<^verbatim>\<open>handleSubmit\<close> and \<^verbatim>\<open>handleCancelQuery\<close>\<close>

definition query_cancelled :: string where
  "query_cancelled = ''Query cancelled by user.''"

definition query_failed :: string where
  "query_failed = ''Failed to execute query. Please try again.''"

definition handleSubmit_prologue :: "world \<Rightarrow> world \<times> nat" where
  \<comment> \<open>the statements ahead of the \<^verbatim>\<open>try\<close>; returns the new controller as well\<close>
  "handleSubmit_prologue w =
     (let w1 = set_ui (\<lambda>s. s\<lparr>loading := True\<rparr>) w;
          w2 = set_ui (\<lambda>s. s\<lparr>result := None\<rparr>) w1;
          controller = controllers w2;
          w3 = w2\<lparr>controllers := Suc controller\<rparr>;
          w4 = set_ui (\<lambda>s. s\<lparr>abortController := Some controller\<rparr>) w3
      in (w4, controller))"

definition handleSubmit_begin :: "world \<Rightarrow> world" where
  "handleSubmit_begin w =
     (case handleSubmit_prologue w of
        (w', controller) \<Rightarrow>
          dispatch (AwaitExecuteSql (credentials (ui w)) (query (ui w)) controller) w')"

definition isAbortError :: "thrown \<Rightarrow> bool" where
  \<comment> \<open>\<^verbatim>\<open>error instanceof Error && error.name === 'AbortError'\<close>\<close>
  "isAbortError e = (case e of JsError n m \<Rightarrow> n = ''AbortError'' | NonError \<Rightarrow> False)"

definition fetch_with_signal :: "bool \<Rightarrow> 'a outcome \<Rightarrow> 'a outcome" where
  \<comment> \<open>a request that was given a signal: once the signal is aborted it rejects with the
      abort error, whatever the collaborator answers\<close>
  "fetch_with_signal signalled out = (if signalled then Threw abortError else out)"

definition handleSubmit_settled :: "query_result outcome \<Rightarrow> panel \<Rightarrow> panel" where
  "handleSubmit_settled out s =
     (let s1 =
        (case out of
           Resolved d \<Rightarrow> s\<lparr>result := Some d\<rparr>
         | Threw e \<Rightarrow>
             if isAbortError e then s\<lparr>result := Some (failure query_cancelled)\<rparr>
             else s\<lparr>result := Some (failure query_failed)\<rparr>)
      in s1\<lparr>loading := False, abortController := None\<rparr>)"

definition handleCancelQuery :: "world \<Rightarrow> world" where
  "handleCancelQuery w =
     (case abortController (ui w) of
        None \<Rightarrow> w
      | Some controller \<Rightarrow> w\<lparr>aborted := insert controller (aborted w)\<rparr>)"

subsection \<open>The Save CSV button\<close>

definition export_offered :: "panel \<Rightarrow> bool" where
  \<comment> \<open>\<^verbatim>\<open>result?.success && Array.isArray(result.data) && result.data.length > 0\<close>\<close>
  "export_offered s =
     (case result s of
        None \<Rightarrow> False
      | Some r \<Rightarrow> success r \<and> (case data r of Some (PRows rows) \<Rightarrow> rows \<noteq> [] | _ \<Rightarrow> False))"

definition saveCsv_begin :: "query_result \<Rightarrow> world \<Rightarrow> world" where
  \<comment> \<open>\<open>r\<close> is the \<^verbatim>\<open>result\<close> of the render that shows the button\<close>
  "saveCsv_begin r w =
     (if \<not> truthy (csvFilename (ui w)) then w
      else dispatch (AwaitSaveCsv (data r) (csvFilename (ui w))) w)"

definition saveCsv_catch :: "thrown \<Rightarrow> panel \<Rightarrow> panel" where
  "saveCsv_catch e s =
     s\<lparr>result := Some (failure (case e of JsError n m \<Rightarrow> m | NonError \<Rightarrow> ''Failed to save CSV''))\<rparr>"

definition new_Error :: "string option \<Rightarrow> thrown" where
  \<comment> \<open>\<^verbatim>\<open>new Error(m)\<close>; without a message the message is the empty string\<close>
  "new_Error m = JsError ''Error'' (case m of None \<Rightarrow> [] | Some t \<Rightarrow> t)"

definition saveCsv_settled :: "payload option \<Rightarrow> save_response outcome \<Rightarrow> panel \<Rightarrow> panel" where
  \<comment> \<open>\<open>rows\<close> is \<^verbatim>\<open>result.data\<close> of the render in which the button was clicked\<close>
  "saveCsv_settled rows out s =
     (case out of
        Resolved d \<Rightarrow>
          if save_success d then
            s\<lparr>savedCsvPath := filePath d,
              result := Some \<lparr>success = True, data = rows, error = None,
                              message = Some ''CSV file saved successfully''\<rparr>\<rparr>
          else saveCsv_catch (new_Error (save_error d)) s
      | Threw e \<Rightarrow> saveCsv_catch e s)"

subsection \<open>The Execute File card\<close>

definition execute_card_shown :: "panel \<Rightarrow> bool" where
  "execute_card_shown s = truthy (savedCsvPath s)"

definition executablePath_shown :: "panel \<Rightarrow> string" where
  \<comment> \<open>the \<^verbatim>\<open>value\<close> of the path input\<close>
  "executablePath_shown s =
     (if truthy (executablePath s) then executablePath s else path (executable (adminSettings s)))"

definition executableParams_shown :: "panel \<Rightarrow> string" where
  \<comment> \<open>the \<^verbatim>\<open>value\<close> of the parameters input\<close>
  "executableParams_shown s =
     (if truthy (executableParams s) then executableParams s
      else defaultParams (executable (adminSettings s)))"

definition execute_disabled :: "panel \<Rightarrow> bool" where
  "execute_disabled s = (\<not> truthy (executablePath s))"

definition execute_params :: "panel \<Rightarrow> string list" where
  "execute_params s =
     map (\<lambda>param. replace param ''{csv}'' (savedCsvPath s)) (split (executableParams s) CHR '' '')"

definition execute_begin :: "world \<Rightarrow> world" where
  "execute_begin w =
     (if \<not> truthy (executablePath (ui w)) then w
      else dispatch (AwaitExecuteFile (executablePath (ui w)) (execute_params (ui w))) w)"

definition execute_settled :: "file_response outcome \<Rightarrow> panel \<Rightarrow> panel" where
  "execute_settled out s =
     (case out of
        Resolved d \<Rightarrow>
          s\<lparr>result := Some \<lparr>success = file_success d,
                            data = (if file_success d then map_option PText (file_output d)
                                    else Some PNull),
                            error = file_error d, message = None\<rparr>\<rparr>
      | Threw e \<Rightarrow>
          s\<lparr>result := Some (failure (case e of JsError n m \<Rightarrow> m
                                       | NonError \<Rightarrow> ''Failed to execute file''))\<rparr>)"

section \<open>The panel as a transition system\<close>

text \<open>
  What can happen to a mounted panel: the operator edits a field or activates a control,
  or a request in flight settles. A control that the current render does not show, or
  shows disabled, does nothing; so does settling a request that is not in flight. While
  \<^verbatim>\<open>loading\<close> the form's only submit button is rendered \<^verbatim>\<open>disabled\<close>, so the form cannot
  be submitted, and the Cancel button is rendered only while \<^verbatim>\<open>loading\<close>. The \<^verbatim>\<open>required\<close>
  attributes of the inputs, which can only prevent further submissions, are left out.
\<close>

datatype event =
    SetHost string | SetPort string | SetUser string | SetPassword string
  | SelectDatabase string
  | SetQuery string | SetCsvFilename string
  | SetExecutablePath string | SetExecutableParams string
  | Submit | CancelQuery | TestConnection | SaveCsv | ExecuteFile
  | SettingsSettled nat "settings_response outcome"
  | TestConnectionSettled nat "query_result outcome"
  | ListDatabasesSettled nat "databases_response outcome"
  | ExecuteSqlSettled nat "query_result outcome"
  | SaveCsvSettled nat "save_response outcome"
  | ExecuteFileSettled nat "file_response outcome"

definition resume :: "nat \<Rightarrow> world \<Rightarrow> world" where
  \<comment> \<open>the \<open>i\<close>-th request in flight is no longer in flight\<close>
  "resume i w = w\<lparr>inflight := remove_nth i (inflight w)\<rparr>"

definition settled :: "nat \<Rightarrow> world \<Rightarrow> pending option" where
  "settled i w = (if i < length (inflight w) then Some (inflight w ! i) else None)"

fun step :: "event \<Rightarrow> world \<Rightarrow> world" where
  "step (SetHost v) w = set_ui (\<lambda>s. s\<lparr>credentials := (credentials s)\<lparr>host := v\<rparr>\<rparr>) w"
| "step (SetPort v) w = set_ui (\<lambda>s. s\<lparr>credentials := (credentials s)\<lparr>port := v\<rparr>\<rparr>) w"
| "step (SetUser v) w = set_ui (\<lambda>s. s\<lparr>credentials := (credentials s)\<lparr>user := v\<rparr>\<rparr>) w"
| "step (SetPassword v) w = set_ui (\<lambda>s. s\<lparr>credentials := (credentials s)\<lparr>password := v\<rparr>\<rparr>) w"
| "step (SelectDatabase v) w =
     (if isConnected (ui w) \<and> databases (ui w) \<noteq> [] \<and> (v = [] \<or> v \<in> set (databases (ui w)))
      then set_ui (\<lambda>s. s\<lparr>credentials := (credentials s)\<lparr>database := v\<rparr>\<rparr>) w
      else w)"
| "step (SetQuery v) w = set_ui (\<lambda>s. s\<lparr>query := v\<rparr>) w"
| "step (SetCsvFilename v) w =
     (if export_offered (ui w) then set_ui (\<lambda>s. s\<lparr>csvFilename := v\<rparr>) w else w)"
| "step (SetExecutablePath v) w =
     (if execute_card_shown (ui w) then set_ui (\<lambda>s. s\<lparr>executablePath := v\<rparr>) w else w)"
| "step (SetExecutableParams v) w =
     (if execute_card_shown (ui w) then set_ui (\<lambda>s. s\<lparr>executableParams := v\<rparr>) w else w)"
| "step Submit w = (if loading (ui w) then w else handleSubmit_begin w)"
| "step CancelQuery w = (if loading (ui w) then handleCancelQuery w else w)"
| "step TestConnection w = (if loading (ui w) then w else testConnection_begin w)"
| "step SaveCsv w =
     (case result (ui w) of
        None \<Rightarrow> w
      | Some r \<Rightarrow> if export_offered (ui w) then saveCsv_begin r w else w)"
| "step ExecuteFile w =
     (if execute_card_shown (ui w) \<and> \<not> execute_disabled (ui w) then execute_begin w else w)"
| "step (SettingsSettled i out) w =
     (case settled i w of
        Some (AwaitSettings closure) \<Rightarrow>
          set_ui (loadSavedSettings_settled closure out) (resume i w)
      | _ \<Rightarrow> w)"
| "step (TestConnectionSettled i out) w =
     (case settled i w of
        Some (AwaitTestConnection cr res) \<Rightarrow> testConnection_settled cr res out (resume i w)
      | _ \<Rightarrow> w)"
| "step (ListDatabasesSettled i out) w =
     (case settled i w of
        Some (AwaitListDatabases cr res) \<Rightarrow> set_ui (testConnection_listed res out) (resume i w)
      | _ \<Rightarrow> w)"
| "step (ExecuteSqlSettled i out) w =
     (case settled i w of
        Some (AwaitExecuteSql cr q controller) \<Rightarrow>
          set_ui (handleSubmit_settled (fetch_with_signal (controller \<in> aborted w) out))
            (resume i w)
      | _ \<Rightarrow> w)"
| "step (SaveCsvSettled i out) w =
     (case settled i w of
        Some (AwaitSaveCsv rows filename) \<Rightarrow> set_ui (saveCsv_settled rows out) (resume i w)
      | _ \<Rightarrow> w)"
| "step (ExecuteFileSettled i out) w =
     (case settled i w of
        Some (AwaitExecuteFile file params) \<Rightarrow> set_ui (execute_settled out) (resume i w)
      | _ \<Rightarrow> w)"

fun run :: "event list \<Rightarrow> world \<Rightarrow> world" where
  "run [] w = w"
| "run (e # es) w = run es (step e w)"

definition mount :: world where
  \<comment> \<open>the first render, with the effect's request for the saved settings already sent\<close>
  "mount = \<lparr>ui = initial_panel, inflight = [AwaitSettings (credentials initial_panel)],
            aborted = {}, controllers = 0\<rparr>"

subsection \<open>Observations\<close>

fun holds_loading :: "pending \<Rightarrow> bool" where
  \<comment> \<open>the handlers that set \<^verbatim>\<open>loading\<close> while they wait\<close>
  "holds_loading (AwaitTestConnection cr res) = True"
| "holds_loading (AwaitListDatabases cr res) = True"
| "holds_loading (AwaitExecuteSql cr q controller) = True"
| "holds_loading p = False"

fun token :: "pending \<Rightarrow> nat list" where
  \<comment> \<open>the controller a query in flight is bound to\<close>
  "token (AwaitExecuteSql cr q controller) = [controller]"
| "token p = []"

definition executing :: "world \<Rightarrow> nat list" where
  \<comment> \<open>the queries in flight, each as its controller\<close>
  "executing w = concat (map token (inflight w))"

definition busy :: "world \<Rightarrow> nat" where
  \<comment> \<open>how many probes, enumerations and queries are in flight\<close>
  "busy w = length (filter holds_loading (inflight w))"

text \<open>
  What every reachable world satisfies: \<^verbatim>\<open>loading\<close> is set exactly while one probe,
  enumeration or query is in flight, and \<^verbatim>\<open>abortController\<close> holds exactly the controller
  of the query in flight.
\<close>

definition invar :: "world \<Rightarrow> bool" where
  "invar w \<longleftrightarrow>
     busy w = (if loading (ui w) then 1 else 0) \<and>
     executing w = (case abortController (ui w) of None \<Rightarrow> [] | Some c \<Rightarrow> [c])"

section \<open>Sessions used as examples\<close>

definition probe_ok :: query_result where
  \<comment> \<open>the test-connection response \<^verbatim>\<open>{ success: true }\<close>\<close>
  "probe_ok = \<lparr>success = True, data = None, error = None, message = None\<rparr>"

definition one_row :: "payload option" where
  \<comment> \<open>the rows \<^verbatim>\<open>[{"1": 1}]\<close>\<close>
  "one_row = Some (PRows [[(''1'', SNum 1)]])"

definition select_one :: "event list" where
  \<comment> \<open>a query that returns one row, then a filename for its export\<close>
  "select_one =
     [Submit,
      ExecuteSqlSettled 1
        (Resolved \<lparr>success = True, data = one_row, error = None, message = None\<rparr>),
      SetCsvFilename ''out.csv'']"

definition saved_out :: save_response where
  "saved_out = \<lparr>save_success = True, filePath = ''/tmp/out.csv'', save_error = None\<rparr>"

definition disk_full :: save_response where
  "disk_full = \<lparr>save_success = False, filePath = [], save_error = Some ''disk full''\<rparr>"

definition export_twice :: "event list" where
  \<comment> \<open>one export that succeeded and a second one still in flight\<close>
  "export_twice = select_one @ [SaveCsv, SaveCsvSettled 1 (Resolved saved_out), SaveCsv]"

definition export_dollar :: "event list" where
  \<comment> \<open>an export under a filename with two dollar signs, then its invocation\<close>
  "export_dollar =
     [Submit,
      ExecuteSqlSettled 1
        (Resolved \<lparr>success = True, data = one_row, error = None, message = None\<rparr>),
      SetCsvFilename ''a$$b.csv'',
      SaveCsv,
      SaveCsvSettled 1
        (Resolved \<lparr>save_success = True, filePath = ''/tmp/a$$b.csv'', save_error = None\<rparr>),
      SetExecutablePath ''/bin/tool'',
      SetExecutableParams ''{csv}'',
      ExecuteFile]"

definition ameise_defaults :: settings_response where
  \<comment> \<open>saved settings with defaults for the executable\<close>
  "ameise_defaults =
     \<lparr>settings_success = True,
      settings = \<lparr>database_defaults = \<lparr>host = [], port = [], user = [], password = []\<rparr>,
                   executable = \<lparr>path = ''C:/ameise.exe'', defaultParams = ''--in {csv}''\<rparr>\<rparr>\<rparr>"

definition export_with_defaults :: "event list" where
  \<comment> \<open>the settings load, then a query and its export; the operator types nothing into
      the Execute File card\<close>
  "export_with_defaults =
     [SettingsSettled 0 (Resolved ameise_defaults),
      Submit,
      ExecuteSqlSettled 0
        (Resolved \<lparr>success = True, data = one_row, error = None, message = None\<rparr>),
      SetCsvFilename ''out.csv'',
      SaveCsv,
      SaveCsvSettled 0 (Resolved saved_out)]"

definition defaults_y :: settings_response where
  \<comment> \<open>saved settings with host \<^verbatim>\<open>y\<close> and port \<^verbatim>\<open>1\<close>\<close>
  "defaults_y =
     \<lparr>settings_success = True,
      settings = \<lparr>database_defaults = \<lparr>host = ''y'', port = ''1'', user = [], password = []\<rparr>,
                   executable = \<lparr>path = [], defaultParams = []\<rparr>\<rparr>\<rparr>"

definition two_rows :: "payload option" where
  \<comment> \<open>the rows \<^verbatim>\<open>[{"n": 1}, {"n": 2}]\<close>\<close>
  "two_rows = Some (PRows [[(''n'', SNum 1)], [(''n'', SNum 2)]])"

definition export_then_query :: "event list" where
  \<comment> \<open>an export is requested; while it is in flight a second query runs and returns
      other rows\<close>
  "export_then_query =
     select_one @
     [SaveCsv,
      Submit,
      ExecuteSqlSettled 2
        (Resolved \<lparr>success = True, data = two_rows, error = None, message = None\<rparr>)]"

definition two_databases :: databases_response where
  "two_databases =
     \<lparr>list_success = True, list_databases = [''db1'', ''db2''], list_error = None\<rparr>"

definition connected_export :: "event list" where
  \<comment> \<open>a probe and an enumeration that succeed, then a query and its export\<close>
  "connected_export =
     [TestConnection,
      TestConnectionSettled 1 (Resolved probe_ok),
      ListDatabasesSettled 1 (Resolved two_databases)] @
     select_one @
     [SaveCsv, SaveCsvSettled 1 (Resolved saved_out)]"

definition connected_failure :: "event list" where
  \<comment> \<open>after that session, a query that fails\<close>
  "connected_failure =
     connected_export @
     [Submit, ExecuteSqlSettled 1 (Threw (JsError ''TypeError'' ''Failed to fetch''))]"

lemmas handler_defs =
  set_ui_def dispatch_def resume_def settled_def remove_nth_def
  loadSavedSettings_settled_def spread_defaults_def
  fetchDatabases_begin_def fetchDatabases_settled_def fetched_error_shown_def or_else_def
  testConnection_begin_def testConnection_settled_def testConnection_listed_def
  handleSubmit_prologue_def handleSubmit_begin_def handleSubmit_settled_def
  isAbortError_def fetch_with_signal_def abortError_def handleCancelQuery_def
  export_offered_def saveCsv_begin_def saveCsv_catch_def new_Error_def saveCsv_settled_def
  execute_card_shown_def executablePath_shown_def executableParams_shown_def
  execute_disabled_def execute_params_def execute_begin_def execute_settled_def
  truthy_def failure_def mount_def initial_panel_def busy_def executing_def
  replace_def includes_str_def query_cancelled_def query_failed_def fetch_databases_failed_def

lemmas example_defs =
  probe_ok_def one_row_def select_one_def saved_out_def disk_full_def export_twice_def
  export_dollar_def ameise_defaults_def export_with_defaults_def defaults_y_def
  two_rows_def export_then_query_def two_databases_def connected_export_def
  connected_failure_def

section \<open>Facts about the transition system\<close>

lemma ui_set_ui [simp]: "ui (set_ui f w) = f (ui w)"
  and inflight_set_ui [simp]: "inflight (set_ui f w) = inflight w"
  and aborted_set_ui [simp]: "aborted (set_ui f w) = aborted w"
  by (simp_all add: set_ui_def)

lemma ui_dispatch [simp]: "ui (dispatch p w) = ui w"
  and inflight_dispatch [simp]: "inflight (dispatch p w) = inflight w @ [p]"
  and aborted_dispatch [simp]: "aborted (dispatch p w) = aborted w"
  by (simp_all add: dispatch_def)

lemma ui_resume [simp]: "ui (resume i w) = ui w"
  and inflight_resume [simp]: "inflight (resume i w) = remove_nth i (inflight w)"
  and aborted_resume [simp]: "aborted (resume i w) = aborted w"
  by (simp_all add: resume_def)

lemma busy_set_ui [simp]: "busy (set_ui f w) = busy w"
  by (simp add: busy_def)

lemma executing_set_ui [simp]: "executing (set_ui f w) = executing w"
  by (simp add: executing_def)

lemma busy_dispatch [simp]:
  "busy (dispatch p w) = busy w + (if holds_loading p then 1 else 0)"
  by (simp add: busy_def)

lemma executing_dispatch [simp]: "executing (dispatch p w) = executing w @ token p"
  by (simp add: executing_def)

lemma split_at:
  assumes "i < length xs"
  shows "xs = take i xs @ xs ! i # drop (Suc i) xs"
  using assms by (simp add: id_take_nth_drop)

lemma busy_resume:
  assumes "i < length (inflight w)"
  shows "busy w = busy (resume i w) + (if holds_loading (inflight w ! i) then 1 else 0)"
proof -
  let ?xs = "inflight w"
  have "filter holds_loading ?xs =
        filter holds_loading (take i ?xs) @ filter holds_loading [?xs ! i] @
        filter holds_loading (drop (Suc i) ?xs)"
    using split_at [OF assms] by (metis append_Cons append_Nil filter_append)
  then show ?thesis
    by (simp add: busy_def remove_nth_def)
qed

lemma executing_resume:
  assumes "i < length (inflight w)"
  shows "\<exists>us vs. executing w = us @ token (inflight w ! i) @ vs \<and> executing (resume i w) = us @ vs"
proof -
  let ?xs = "inflight w"
  have "map token ?xs = map token (take i ?xs) @ token (?xs ! i) # map token (drop (Suc i) ?xs)"
    using split_at [OF assms] by (metis list.simps(9) map_append)
  then have "executing w =
      concat (map token (take i ?xs)) @ token (?xs ! i) @ concat (map token (drop (Suc i) ?xs))"
    by (simp add: executing_def)
  moreover have "executing (resume i w) =
      concat (map token (take i ?xs)) @ concat (map token (drop (Suc i) ?xs))"
    by (simp add: executing_def remove_nth_def)
  ultimately show ?thesis by blast
qed

lemma busy_zero_executing:
  assumes "busy w = 0"
  shows "executing w = []"
proof -
  have "\<forall>p \<in> set (inflight w). \<not> holds_loading p"
    using assms by (simp add: busy_def filter_empty_conv)
  moreover have "token p = []" if "\<not> holds_loading p" for p
    using that by (cases p) simp_all
  ultimately show ?thesis
    by (simp add: executing_def)
qed


lemma loadSavedSettings_frame [simp]:
  "loading (loadSavedSettings_settled c out s) = loading s"
  "abortController (loadSavedSettings_settled c out s) = abortController s"
  by (simp_all add: loadSavedSettings_settled_def Let_def split: outcome.splits)

lemma saveCsv_frame [simp]:
  "loading (saveCsv_settled rows out s) = loading s"
  "abortController (saveCsv_settled rows out s) = abortController s"
  by (simp_all add: saveCsv_settled_def saveCsv_catch_def split: outcome.splits)

lemma execute_frame [simp]:
  "loading (execute_settled out s) = loading s"
  "abortController (execute_settled out s) = abortController s"
  by (simp_all add: execute_settled_def split: outcome.splits)

lemma testConnection_listed_frame [simp]:
  "loading (testConnection_listed res out s) = False"
  "abortController (testConnection_listed res out s) = abortController s"
  by (simp_all add: testConnection_listed_def fetchDatabases_settled_def Let_def
      split: outcome.splits)

lemma handleSubmit_settled_frame [simp]:
  "loading (handleSubmit_settled out s) = False"
  "abortController (handleSubmit_settled out s) = None"
  by (simp_all add: handleSubmit_settled_def Let_def split: outcome.splits)

lemma invar_set_ui:
  assumes "invar w" "loading (f (ui w)) = loading (ui w)"
    "abortController (f (ui w)) = abortController (ui w)"
  shows "invar (set_ui f w)"
  using assms by (simp add: invar_def)

lemma invar_resume_idle:
  assumes "invar w" "i < length (inflight w)" "\<not> holds_loading (inflight w ! i)"
  shows "invar (resume i w)"
proof -
  have "token (inflight w ! i) = []"
    using assms(3) by (cases "inflight w ! i") simp_all
  with executing_resume [OF assms(2)] have "executing (resume i w) = executing w"
    by auto
  moreover have "busy (resume i w) = busy w"
    using busy_resume [OF assms(2)] assms(3) by simp
  ultimately show ?thesis
    using assms(1) by (simp add: invar_def)
qed

lemma resume_holder:
  assumes "invar w" "i < length (inflight w)" "holds_loading (inflight w ! i)"
  shows "loading (ui w)" "busy (resume i w) = 0" "executing (resume i w) = []"
proof -
  have b: "busy w = busy (resume i w) + 1"
    using busy_resume [OF assms(2)] assms(3) by simp
  then show l: "loading (ui w)"
    using assms(1) by (auto simp: invar_def split: if_splits)
  with b assms(1) show z: "busy (resume i w) = 0"
    by (simp add: invar_def)
  then show "executing (resume i w) = []"
    by (rule busy_zero_executing)
qed

lemma invar_idle:
  assumes "invar w" "\<not> loading (ui w)"
  shows "busy w = 0" "executing w = []" "abortController (ui w) = None"
proof -
  show b: "busy w = 0" using assms by (simp add: invar_def)
  then show e: "executing w = []" by (rule busy_zero_executing)
  with assms(1) show "abortController (ui w) = None"
    by (auto simp: invar_def split: option.splits)
qed

lemma invar_handleSubmit_begin:
  assumes "invar w" "\<not> loading (ui w)"
  shows "invar (handleSubmit_begin w)"
  using invar_idle [OF assms]
  by (simp add: invar_def handleSubmit_begin_def handleSubmit_prologue_def Let_def
      busy_def executing_def set_ui_def dispatch_def)

lemma invar_testConnection_begin:
  assumes "invar w" "\<not> loading (ui w)"
  shows "invar (testConnection_begin w)"
  using invar_idle [OF assms] assms(1)
  by (simp add: invar_def testConnection_begin_def)

lemma handleCancelQuery_frame [simp]:
  "ui (handleCancelQuery w) = ui w"
  "inflight (handleCancelQuery w) = inflight w"
  "controllers (handleCancelQuery w) = controllers w"
  by (simp_all add: handleCancelQuery_def split: option.splits)

lemma invar_handleCancelQuery: "invar w \<Longrightarrow> invar (handleCancelQuery w)"
  unfolding invar_def busy_def executing_def by simp

lemma invar_saveCsv_begin: "invar w \<Longrightarrow> invar (saveCsv_begin r w)"
  by (simp add: invar_def saveCsv_begin_def)

lemma invar_execute_begin: "invar w \<Longrightarrow> invar (execute_begin w)"
  by (simp add: invar_def execute_begin_def)

lemma invar_testConnection_settled:
  assumes "invar w" "i < length (inflight w)" "inflight w ! i = AwaitTestConnection cr res"
  shows "invar (testConnection_settled cr res out (resume i w))"
proof -
  have h: "holds_loading (inflight w ! i)" using assms(3) by simp
  note r = resume_holder [OF assms(1,2) h]
  have a: "abortController (ui w) = None"
    using assms(1) executing_resume [OF assms(2)] r(3)
    by (auto simp: invar_def assms(3) split: option.splits)
  show ?thesis
    using r a
    by (simp add: invar_def testConnection_settled_def fetchDatabases_begin_def Let_def
        split: outcome.splits)
qed

lemma invar_listed:
  assumes "invar w" "i < length (inflight w)" "inflight w ! i = AwaitListDatabases cr res"
  shows "invar (set_ui (testConnection_listed res out) (resume i w))"
proof -
  have h: "holds_loading (inflight w ! i)" using assms(3) by simp
  note r = resume_holder [OF assms(1,2) h]
  have a: "abortController (ui w) = None"
    using assms(1) executing_resume [OF assms(2)] r(3)
    by (auto simp: invar_def assms(3) split: option.splits)
  show ?thesis
    using r a by (simp add: invar_def)
qed

lemma invar_query_settled:
  assumes "invar w" "i < length (inflight w)" "inflight w ! i = AwaitExecuteSql cr q c"
  shows "invar (set_ui (handleSubmit_settled out) (resume i w))"
proof -
  have h: "holds_loading (inflight w ! i)" using assms(3) by simp
  note r = resume_holder [OF assms(1,2) h]
  show ?thesis
    using r by (simp add: invar_def)
qed

lemma invar_step:
  assumes "invar w"
  shows "invar (step e w)"
proof (cases e)
  case (SettingsSettled i out)
  then show ?thesis
    using assms
    by (auto simp: settled_def intro!: invar_set_ui invar_resume_idle
        split: option.splits pending.splits)
next
  case (TestConnectionSettled i out)
  then show ?thesis
    using assms
    by (auto simp: settled_def intro: invar_testConnection_settled
        split: option.splits pending.splits if_splits)
next
  case (ListDatabasesSettled i out)
  then show ?thesis
    using assms
    by (auto simp: settled_def intro: invar_listed split: option.splits pending.splits if_splits)
next
  case (ExecuteSqlSettled i out)
  then show ?thesis
    using assms
    by (auto simp: settled_def intro: invar_query_settled
        split: option.splits pending.splits if_splits)
next
  case (SaveCsvSettled i out)
  then show ?thesis
    using assms
    by (auto simp: settled_def intro!: invar_set_ui invar_resume_idle
        split: option.splits pending.splits)
next
  case (ExecuteFileSettled i out)
  then show ?thesis
    using assms
    by (auto simp: settled_def intro!: invar_set_ui invar_resume_idle
        split: option.splits pending.splits)
qed (use assms in \<open>auto simp: invar_handleSubmit_begin invar_testConnection_begin
      invar_handleCancelQuery invar_saveCsv_begin invar_execute_begin
      intro!: invar_set_ui split: option.splits\<close>)

lemma invar_run: "invar w \<Longrightarrow> invar (run es w)"
  by (induction es arbitrary: w) (simp_all add: invar_step)

lemma invar_mount: "invar mount"
  by (simp add: invar_def mount_def busy_def executing_def initial_panel_def)

subsection \<open>Replacement without dollar signs\<close>

lemma getSubstitution_plain:
  "CHR ''$'' \<notin> set repl \<Longrightarrow> getSubstitution matched pre post repl = repl"
  by (induction matched pre post repl rule: getSubstitution.induct) auto

lemma indexOf_splits:
  "indexOf t pat = Some (pre, post) \<Longrightarrow> t = pre @ pat @ post"
proof (induction t pat arbitrary: pre post rule: indexOf.induct)
  case (1 pat)
  then show ?case by (auto split: if_splits)
next
  case (2 c cs pat)
  show ?case
  proof (cases "take (length pat) (c # cs) = pat")
    case True
    with 2(2) have "pre = []" "post = drop (length pat) (c # cs)" by simp_all
    with True show ?thesis by (metis append_Nil append_take_drop_id)
  next
    case False
    with 2(2) obtain p where "indexOf cs pat = Some (p, post)" "pre = c # p"
      by (auto split: option.splits)
    with 2(1) [OF False] show ?thesis by simp
  qed
qed

lemma replace_absent: "indexOf t pat = None \<Longrightarrow> replace t pat repl = t"
  by (simp add: replace_def)

lemma replace_first:
  "indexOf t pat = Some (pre, post) \<Longrightarrow> CHR ''$'' \<notin> set repl \<Longrightarrow>
   replace t pat repl = pre @ repl @ post"
  by (simp add: replace_def getSubstitution_plain)

lemma csv_placeholder_plain_path:
  assumes "CHR ''$'' \<notin> set p"
  shows "replace ''{csv}'' ''{csv}'' p = p"
    and "replace ''--file={csv}'' ''{csv}'' p = ''--file='' @ p"
    and "replace ''plain'' ''{csv}'' p = ''plain''"
    and "execute_params (s\<lparr>executableParams := ''{csv} {csv}'', savedCsvPath := p\<rparr>) = [p, p]"
  using assms by (simp_all add: replace_def execute_params_def getSubstitution_plain)

section \<open>Query submission\<close>

text \<open>
  C1. A submission is accepted only while nothing holds \<^verbatim>\<open>loading\<close>. In every world
  reachable from the mounted panel at most one query is in flight; while one is in flight
  the Submit control does nothing at all: the component state is the same and no request
  is added to those in flight; and a submission that does change the world found no probe,
  enumeration or query in flight. The guard is the \<^verbatim>\<open>disabled\<close> submit button rendered
  while \<^verbatim>\<open>loading\<close>: \<^verbatim>\<open>handleSubmit\<close> itself does not test anything.
\<close>

theorem submit_only_while_idle:
  "length (executing (run es mount)) \<le> 1 \<and>
   (executing (run es mount) \<noteq> [] \<longrightarrow> step Submit (run es mount) = run es mount) \<and>
   (step Submit (run es mount) \<noteq> run es mount \<longrightarrow> busy (run es mount) = 0)"
proof -
  let ?w = "run es mount"
  have inv: "invar ?w"
    by (rule invar_run [OF invar_mount])
  have one: "length (executing ?w) \<le> 1"
    using inv by (simp add: invar_def split: option.splits)
  have idle: "busy ?w = 0" if "\<not> loading (ui ?w)"
    using invar_idle(1) [OF inv that] .
  have rejected: "step Submit ?w = ?w" if "executing ?w \<noteq> []"
  proof -
    have "busy ?w \<noteq> 0"
      using that busy_zero_executing by blast
    with idle have "loading (ui ?w)" by blast
    then show ?thesis by simp
  qed
  have accepted: "busy ?w = 0" if "step Submit ?w \<noteq> ?w"
  proof -
    have "\<not> loading (ui ?w)" using that by auto
    then show ?thesis by (rule idle)
  qed
  from one rejected accepted show ?thesis by blast
qed

theorem submit_only_while_idle_witness:
  "executing (run [Submit] mount) \<noteq> [] \<and>
   step Submit (run [Submit] mount) = run [Submit] mount \<and>
   length (executing (run [Submit] mount)) \<le> 1"
  using submit_only_while_idle [of "[Submit]"] by (simp add: handler_defs)

text \<open>
  C10. An accepted submission clears the displayed result before the request leaves: after
  the statements ahead of the \<^verbatim>\<open>try\<close> the result is empty and nothing has been sent yet;
  the submission then sends the execute-query request, which is in flight (not settled)
  in the resulting world, where the result is still empty. The database list, the
  connected flag and the saved CSV path are what they were.
\<close>

theorem submit_clears_result:
  assumes "\<not> loading (ui w)"
  shows "result (ui (fst (handleSubmit_prologue w))) = None \<and>
         inflight (fst (handleSubmit_prologue w)) = inflight w \<and>
         step Submit w =
           dispatch (AwaitExecuteSql (credentials (ui w)) (query (ui w)) (controllers w))
             (fst (handleSubmit_prologue w)) \<and>
         result (ui (step Submit w)) = None \<and>
         inflight (step Submit w) =
           inflight w @ [AwaitExecuteSql (credentials (ui w)) (query (ui w)) (controllers w)] \<and>
         databases (ui (step Submit w)) = databases (ui w) \<and>
         isConnected (ui (step Submit w)) = isConnected (ui w) \<and>
         savedCsvPath (ui (step Submit w)) = savedCsvPath (ui w)"
  using assms
  by (simp add: handleSubmit_begin_def handleSubmit_prologue_def Let_def set_ui_def dispatch_def)

theorem submit_clears_result_witness:
  "\<not> loading (ui (run connected_export mount)) \<and>
   result (ui (run connected_export mount)) =
     Some \<lparr>success = True, data = one_row, error = None,
           message = Some ''CSV file saved successfully''\<rparr> \<and>
   databases (ui (run connected_export mount)) = [''db1'', ''db2''] \<and>
   isConnected (ui (run connected_export mount)) \<and>
   savedCsvPath (ui (run connected_export mount)) = ''/tmp/out.csv'' \<and>
   result (ui (fst (handleSubmit_prologue (run connected_export mount)))) = None \<and>
   inflight (fst (handleSubmit_prologue (run connected_export mount))) =
     [AwaitSettings (credentials initial_panel)] \<and>
   result (ui (step Submit (run connected_export mount))) = None \<and>
   inflight (step Submit (run connected_export mount)) =
     [AwaitSettings (credentials initial_panel),
      AwaitExecuteSql (credentials initial_panel) [] 1] \<and>
   databases (ui (step Submit (run connected_export mount))) = [''db1'', ''db2''] \<and>
   isConnected (ui (step Submit (run connected_export mount))) \<and>
   savedCsvPath (ui (step Submit (run connected_export mount))) = ''/tmp/out.csv'' \<and>
   \<not> loading (ui (run connected_failure mount)) \<and>
   result (ui (run connected_failure mount)) = Some (failure query_failed) \<and>
   result (ui (step Submit (run connected_failure mount))) = None \<and>
   databases (ui (step Submit (run connected_failure mount))) = [''db1'', ''db2''] \<and>
   isConnected (ui (step Submit (run connected_failure mount))) \<and>
   savedCsvPath (ui (step Submit (run connected_failure mount))) = ''/tmp/out.csv''"
  using submit_clears_result [of "run connected_export mount"]
    submit_clears_result [of "run connected_failure mount"]
  by (simp add: handler_defs example_defs)

text \<open>
  C9. Cancel only signals. In every world reachable from the mounted panel: when no query
  is in flight the Cancel control and \<^verbatim>\<open>handleCancelQuery\<close> leave the world as it is;
  when a query is in flight, \<^verbatim>\<open>abortController\<close> is the controller that query is bound to,
  Cancel marks exactly that controller as aborted, and a second Cancel changes nothing
  more. Cancel never changes the component state or the requests in flight; the state
  changes when the query settles, and then to the cancelled failure.
\<close>

theorem cancel_only_signals:
  "(executing (run es mount) = [] \<longrightarrow>
      step CancelQuery (run es mount) = run es mount \<and>
      handleCancelQuery (run es mount) = run es mount) \<and>
   (\<forall>c. executing (run es mount) = [c] \<longrightarrow>
      abortController (ui (run es mount)) = Some c \<and>
      step CancelQuery (run es mount) =
        (run es mount)\<lparr>aborted := insert c (aborted (run es mount))\<rparr> \<and>
      step CancelQuery (step CancelQuery (run es mount)) = step CancelQuery (run es mount) \<and>
      (\<forall>i cr q out. settled i (run es mount) = Some (AwaitExecuteSql cr q c) \<longrightarrow>
         ui (step (ExecuteSqlSettled i out) (step CancelQuery (run es mount))) =
           (ui (run es mount))\<lparr>result := Some (failure query_cancelled), loading := False,
                                 abortController := None\<rparr>)) \<and>
   ui (step CancelQuery (run es mount)) = ui (run es mount) \<and>
   inflight (step CancelQuery (run es mount)) = inflight (run es mount)"
proof -
  let ?w = "run es mount"
  have inv: "invar ?w"
    by (rule invar_run [OF invar_mount])
  have none: "abortController (ui ?w) = None" if "executing ?w = []"
    using inv that by (auto simp: invar_def split: option.splits)
  have noop: "step CancelQuery ?w = ?w \<and> handleCancelQuery ?w = ?w" if "executing ?w = []"
    using none [OF that] by (simp add: handleCancelQuery_def)
  have bound: "abortController (ui ?w) = Some c" if "executing ?w = [c]" for c
    using inv that by (auto simp: invar_def split: option.splits)
  have held: "loading (ui ?w)" if "executing ?w = [c]" for c
  proof (rule ccontr)
    assume "\<not> loading (ui ?w)"
    from invar_idle(2) [OF inv this] that show False by simp
  qed
  have signal: "step CancelQuery ?w = ?w\<lparr>aborted := insert c (aborted ?w)\<rparr>"
    if "executing ?w = [c]" for c
    using bound [OF that] held [OF that] by (simp add: handleCancelQuery_def)
  have again: "step CancelQuery (step CancelQuery ?w) = step CancelQuery ?w"
    if "executing ?w = [c]" for c
    using bound [OF that] held [OF that] by (simp add: handleCancelQuery_def)
  have observed:
    "ui (step (ExecuteSqlSettled i out) (step CancelQuery ?w)) =
       (ui ?w)\<lparr>result := Some (failure query_cancelled), loading := False,
                abortController := None\<rparr>"
    if "executing ?w = [c]" and "settled i ?w = Some (AwaitExecuteSql cr q c)" for c i cr q out
  proof -
    have "settled i (?w\<lparr>aborted := insert c (aborted ?w)\<rparr>) = Some (AwaitExecuteSql cr q c)"
      using that(2) by (simp add: settled_def split: if_splits)
    then show ?thesis
      unfolding signal [OF that(1)]
      by (simp add: handleSubmit_settled_def fetch_with_signal_def isAbortError_def
          abortError_def set_ui_def resume_def)
  qed
  have frame: "ui (step CancelQuery ?w) = ui ?w \<and> inflight (step CancelQuery ?w) = inflight ?w"
    by simp
  from noop bound signal again observed frame show ?thesis by blast
qed

theorem cancel_only_signals_witness:
  "executing (run [] mount) = [] \<and> step CancelQuery (run [] mount) = run [] mount \<and>
   executing (run [Submit] mount) = [0] \<and>
   abortController (ui (run [Submit] mount)) = Some 0 \<and>
   aborted (step CancelQuery (run [Submit] mount)) = {0} \<and>
   ui (step CancelQuery (run [Submit] mount)) = ui (run [Submit] mount) \<and>
   settled 1 (run [Submit] mount) = Some (AwaitExecuteSql (credentials initial_panel) [] 0) \<and>
   result (ui (step (ExecuteSqlSettled 1 (Resolved probe_ok))
     (step CancelQuery (run [Submit] mount)))) = Some (failure query_cancelled)"
  using cancel_only_signals [of "[]"] cancel_only_signals [of "[Submit]"]
  by (simp add: handler_defs example_defs)

text \<open>
  C2, as the code has it. When the query in flight settles: if its controller has been
  aborted, the result is the failure \<^verbatim>\<open>Query cancelled by user.\<close>, whatever the
  collaborator answered, and never the generic message; if the controller has not been
  aborted and the request throws anything but an abort error, the result is the failure
  \<^verbatim>\<open>Failed to execute query. Please try again.\<close>, which is not the cancellation message;
  if the request resolves, the response is the result as it is, so the message of a failure
  reported by the collaborator is the collaborator's own.
\<close>

theorem query_settles:
  assumes "settled i w = Some (AwaitExecuteSql cr q c)"
  shows "(c \<in> aborted w \<longrightarrow>
            result (ui (step (ExecuteSqlSettled i out) w)) = Some (failure query_cancelled)) \<and>
         (c \<notin> aborted w \<longrightarrow>
            (\<forall>e. out = Threw e \<and> \<not> isAbortError e \<longrightarrow>
               result (ui (step (ExecuteSqlSettled i out) w)) = Some (failure query_failed)) \<and>
            (\<forall>d. out = Resolved d \<longrightarrow>
               result (ui (step (ExecuteSqlSettled i out) w)) = Some d)) \<and>
         query_failed \<noteq> query_cancelled \<and>
         failure query_cancelled =
           \<lparr>success = False, data = None, error = Some ''Query cancelled by user.'',
            message = None\<rparr>"
  using assms
  by (auto simp: handleSubmit_settled_def fetch_with_signal_def isAbortError_def abortError_def
      set_ui_def resume_def Let_def query_failed_def query_cancelled_def failure_def)

theorem query_settles_witness:
  "settled 1 (run [Submit, CancelQuery] mount) =
     Some (AwaitExecuteSql (credentials initial_panel) [] 0) \<and>
   0 \<in> aborted (run [Submit, CancelQuery] mount) \<and>
   result (ui (step (ExecuteSqlSettled 1 (Resolved probe_ok))
     (run [Submit, CancelQuery] mount))) = Some (failure query_cancelled) \<and>
   settled 1 (run [Submit] mount) = Some (AwaitExecuteSql (credentials initial_panel) [] 0) \<and>
   0 \<notin> aborted (run [Submit] mount) \<and>
   \<not> isAbortError (JsError ''TypeError'' ''Failed to fetch'') \<and>
   result (ui (step (ExecuteSqlSettled 1 (Threw (JsError ''TypeError'' ''Failed to fetch'')))
     (run [Submit] mount))) = Some (failure query_failed)"
  using query_settles [of 1 "run [Submit, CancelQuery] mount" "credentials initial_panel" "[]" 0
      "Resolved probe_ok"]
    query_settles [of 1 "run [Submit] mount" "credentials initial_panel" "[]" 0
      "Threw (JsError ''TypeError'' ''Failed to fetch'')"]
  by (simp add: handler_defs example_defs)

text \<open>
  C2 as stated fails: a query that nobody cancelled, and that the collaborator reports as
  failed with the error text \<^verbatim>\<open>Query cancelled by user.\<close>, ends with exactly the
  cancellation message as its result.
\<close>

theorem reported_failure_counterexample:
  "aborted (run [Submit] mount) = {} \<and>
   result (ui (run [Submit,
       ExecuteSqlSettled 1 (Resolved \<lparr>success = False, data = None,
         error = Some ''Query cancelled by user.'', message = None\<rparr>)] mount)) =
     Some \<lparr>success = False, data = None, error = Some ''Query cancelled by user.'',
           message = None\<rparr>"
  by (simp add: handler_defs)

section \<open>Database enumeration\<close>

text \<open>
  C5, as the code has it. When the enumeration in flight throws, or resolves to a response
  without success, the result becomes a failure, \<^verbatim>\<open>isConnected\<close> and \<^verbatim>\<open>loading\<close> become
  false and every other field, the database list among them, stays as it was, whatever the
  probe had set before. The message is the fixed text when the request threw or the
  response has no error text or an empty one; otherwise it is the error text of the
  response.
\<close>

theorem enumeration_failure:
  assumes "settled i w = Some (AwaitListDatabases cr res)"
    and "out = Threw e \<or> (out = Resolved d \<and> \<not> list_success d)"
  shows "ui (step (ListDatabasesSettled i out) w) =
           (ui w)\<lparr>result :=
                     Some (failure (case out of
                                      Threw x \<Rightarrow> fetch_databases_failed
                                    | Resolved r \<Rightarrow> or_else (list_error r) fetch_databases_failed)),
                   isConnected := False, loading := False\<rparr> \<and>
         isConnected (ui (step (ListDatabasesSettled i out) w)) = False \<and>
         databases (ui (step (ListDatabasesSettled i out) w)) = databases (ui w) \<and>
         or_else None fetch_databases_failed = fetch_databases_failed \<and>
         or_else (Some []) fetch_databases_failed = fetch_databases_failed \<and>
         (\<forall>m. m \<noteq> [] \<longrightarrow> or_else (Some m) fetch_databases_failed = m) \<and>
         fetch_databases_failed =
           ''Failed to fetch databases. Please check your connection and try again.''"
  using assms
  by (auto simp: testConnection_listed_def fetchDatabases_settled_def set_ui_def resume_def
      Let_def or_else_def truthy_def fetch_databases_failed_def)

theorem enumeration_failure_witness:
  "settled 1 (run [TestConnection, TestConnectionSettled 1 (Resolved probe_ok)] mount) =
     Some (AwaitListDatabases (credentials initial_panel) None) \<and>
   isConnected (ui (run [TestConnection, TestConnectionSettled 1 (Resolved probe_ok)] mount)) \<and>
   \<not> list_success \<lparr>list_success = False, list_databases = [], list_error = None\<rparr> \<and>
   ui (run [TestConnection, TestConnectionSettled 1 (Resolved probe_ok),
            ListDatabasesSettled 1
              (Resolved \<lparr>list_success = False, list_databases = [], list_error = None\<rparr>)]
         mount) =
     initial_panel\<lparr>result := Some (failure fetch_databases_failed)\<rparr>"
  using enumeration_failure [of 1
      "run [TestConnection, TestConnectionSettled 1 (Resolved probe_ok)] mount"
      "credentials initial_panel" None
      "Resolved \<lparr>list_success = False, list_databases = [], list_error = None\<rparr>" NonError
      "\<lparr>list_success = False, list_databases = [], list_error = None\<rparr>"]
  by (simp add: handler_defs example_defs)

text \<open>
  C5 as stated fails: after a successful probe, an enumeration that the collaborator
  reports as failed with the error text \<^verbatim>\<open>Access denied\<close> ends with that text as the
  message, not with the fixed one.
\<close>

theorem enumeration_error_counterexample:
  "result (ui (run [TestConnection, TestConnectionSettled 1 (Resolved probe_ok),
       ListDatabasesSettled 1
         (Resolved \<lparr>list_success = False, list_databases = [],
            list_error = Some ''Access denied''\<rparr>)] mount)) =
     Some \<lparr>success = False, data = None, error = Some ''Access denied'', message = None\<rparr> \<and>
   ''Access denied'' \<noteq> ''Failed to fetch databases. Please check your connection and try again.''"
  by (simp add: handler_defs example_defs)

section \<open>CSV export\<close>




text \<open>
  C7. When an export in flight throws, or resolves to a response without success, the
  result becomes a failure and nothing else changes: the saved path is what it was, so the
  Execute File card is shown exactly as before, computes the same parameters and sends the
  same request.
\<close>

theorem export_failure:
  assumes "settled j w = Some (AwaitSaveCsv rows filename)"
    and "out = Threw e \<or> (out = Resolved d \<and> \<not> save_success d)"
  shows "savedCsvPath (ui (step (SaveCsvSettled j out) w)) = savedCsvPath (ui w) \<and>
         (\<exists>m. ui (step (SaveCsvSettled j out) w) = (ui w)\<lparr>result := Some (failure m)\<rparr>) \<and>
         execute_card_shown (ui (step (SaveCsvSettled j out) w)) = execute_card_shown (ui w) \<and>
         execute_params (ui (step (SaveCsvSettled j out) w)) = execute_params (ui w) \<and>
         step ExecuteFile (step (SaveCsvSettled j out) w) =
           (if execute_card_shown (ui w) \<and> \<not> execute_disabled (ui w)
            then dispatch (AwaitExecuteFile (executablePath (ui w)) (execute_params (ui w)))
                   (step (SaveCsvSettled j out) w)
            else step (SaveCsvSettled j out) w)"
  using assms
  by (auto simp: saveCsv_settled_def saveCsv_catch_def set_ui_def resume_def
      execute_card_shown_def execute_params_def execute_disabled_def execute_begin_def)

theorem export_failure_witness:
  "settled 1 (run export_twice mount) = Some (AwaitSaveCsv one_row ''out.csv'') \<and>
   \<not> save_success disk_full \<and>
   savedCsvPath (ui (run export_twice mount)) = ''/tmp/out.csv'' \<and>
   savedCsvPath (ui (step (SaveCsvSettled 1 (Resolved disk_full)) (run export_twice mount))) =
     ''/tmp/out.csv'' \<and>
   result (ui (step (SaveCsvSettled 1 (Resolved disk_full)) (run export_twice mount))) =
     Some (failure ''disk full'')"
  using export_failure [of 1 "run export_twice mount" one_row "''out.csv''"
      "Resolved disk_full" NonError disk_full]
  by (simp add: handler_defs example_defs)

section \<open>Executable invocation\<close>

text \<open>
  C3 does not hold for every path. The replacement text of \<^verbatim>\<open>replace\<close> is a template: with a
  saved path \<^verbatim>\<open>/tmp/a$$b.csv\<close> the token \<^verbatim>\<open>{csv}\<close> becomes \<^verbatim>\<open>/tmp/a$b.csv\<close>, and with
  a saved path \<^verbatim>\<open>/tmp/a$&b.csv\<close> the token \<^verbatim>\<open>--file={csv}\<close> keeps its placeholder inside
  the path. The first of these arises in a session: export under the filename
  \<^verbatim>\<open>a$$b.csv\<close>, then Execute with the parameters \<^verbatim>\<open>{csv}\<close>. (For a path without a dollar
  sign the substitution is as C3 says: \<open>csv_placeholder_plain_path\<close>.)
\<close>

theorem csv_placeholder_dollar:
  "execute_params (initial_panel\<lparr>executableParams := ''{csv}'',
                                  savedCsvPath := ''/tmp/a$$b.csv''\<rparr>) = [''/tmp/a$b.csv''] \<and>
   execute_params (initial_panel\<lparr>executableParams := ''--file={csv}'',
                                  savedCsvPath := ''/tmp/a$&b.csv''\<rparr>) =
     [''--file=/tmp/a{csv}b.csv''] \<and>
   savedCsvPath (ui (run export_dollar mount)) = ''/tmp/a$$b.csv'' \<and>
   inflight (run export_dollar mount) =
     [AwaitSettings (credentials initial_panel), AwaitExecuteFile ''/bin/tool'' [''/tmp/a$b.csv'']]"
  by (simp add: handler_defs example_defs)

text \<open>
  C4 does not hold. After the settings have loaded with defaults for the executable and an
  export has succeeded, the Execute File card shows the default path and parameters in its
  inputs, yet the Execute button is disabled and a click sends nothing, because the handler
  and the button read the operator's own fields. Once the operator has typed a path and
  left the parameters alone, the request carries one empty parameter, not the default ones.
\<close>

theorem execute_ignores_defaults:
  "execute_card_shown (ui (run export_with_defaults mount)) \<and>
   executablePath_shown (ui (run export_with_defaults mount)) = ''C:/ameise.exe'' \<and>
   executableParams_shown (ui (run export_with_defaults mount)) = ''--in {csv}'' \<and>
   execute_disabled (ui (run export_with_defaults mount)) \<and>
   inflight (run export_with_defaults mount) = [] \<and>
   step ExecuteFile (run export_with_defaults mount) = run export_with_defaults mount \<and>
   execute_begin (run export_with_defaults mount) = run export_with_defaults mount \<and>
   executableParams_shown
     (ui (run (export_with_defaults @ [SetExecutablePath ''C:/tool.exe'']) mount)) =
     ''--in {csv}'' \<and>
   inflight (run (export_with_defaults @ [SetExecutablePath ''C:/tool.exe'', ExecuteFile]) mount) =
     [AwaitExecuteFile ''C:/tool.exe'' [[]]]"
  by (simp add: handler_defs example_defs)

section \<open>Settings hydration\<close>

text \<open>
  C8 does not hold. The function that loads the settings tests and spreads the
  \<^verbatim>\<open>credentials\<close> constant of the first render, which is empty in every field. When the
  operator has typed the host \<^verbatim>\<open>x\<close> before the settings arrive with host \<^verbatim>\<open>y\<close> and port
  \<^verbatim>\<open>1\<close>, the credentials end up with host \<^verbatim>\<open>y\<close>.
\<close>

theorem hydration_overwrites:
  "credentials (ui (run [SetHost ''x''] mount)) =
     \<lparr>host = ''x'', port = [], user = [], password = [], database = []\<rparr> \<and>
   inflight (run [SetHost ''x''] mount) =
     [AwaitSettings \<lparr>host = [], port = [], user = [], password = [], database = []\<rparr>] \<and>
   credentials (ui (run [SetHost ''x'', SettingsSettled 0 (Resolved defaults_y)] mount)) =
     \<lparr>host = ''y'', port = ''1'', user = [], password = [], database = []\<rparr>"
  by (simp add: handler_defs example_defs)

end
